theory Spec2Isabelle
  imports Main "HOL-Library.Word"
begin

section \<open>The declarations of luastdcall-windows.h\<close>

text \<open>
  The header is a list of exported prototypes and one function-pointer typedef. Each
  prototype is kept as the header writes it: its name, its result type and its
  parameters in order. The build is a Windows one (\<^verbatim>\<open>__declspec(dllexport)\<close>,
  \<^verbatim>\<open>__stdcall\<close>), where C's \<^verbatim>\<open>int\<close> has 32 bits.
\<close>

type_synonym c_int = "32 word"
type_synonym addr = nat

datatype callconv = Cdecl | Stdcall

datatype ctype =
    CVoid
  | CInt
  | CChar
  | CConst ctype
  | CPtr ctype
  | CNamed string
  | CFunPtr callconv ctype "ctype list"

record cdecl =
  d_export :: bool
  d_name :: string
  d_ret :: ctype
  d_params :: "(string \<times> ctype) list"

text \<open>\<^verbatim>\<open>lua_State\<close> comes from lua.h; the header only passes pointers to it.\<close>

definition lua_State_ptr :: ctype where
  "lua_State_ptr = CPtr (CNamed ''lua_State'')"

text \<open>\<^verbatim>\<open>typedef int (__stdcall *lua_stdcallCFunction) (lua_State *L);\<close>\<close>

definition lua_stdcallCFunction :: ctype where
  "lua_stdcallCFunction = CFunPtr Stdcall CInt [lua_State_ptr]"

text \<open>The eight prototypes, in the header's order, each under \<^verbatim>\<open>LUA_DLLEXPORT\<close>.\<close>

definition header_decls :: "cdecl list" where
  "header_decls =
    [ \<lparr>d_export = True, d_name = ''lua_pushstdcallcfunction'', d_ret = CVoid,
        d_params = [(''L'', lua_State_ptr), (''fn'', lua_stdcallCFunction)]\<rparr>,
      \<lparr>d_export = True, d_name = ''lua_safetostring'', d_ret = CVoid,
        d_params = [(''L'', lua_State_ptr), (''index'', CInt), (''buffer'', CPtr CChar)]\<rparr>,
      \<lparr>d_export = True, d_name = ''luaL_checkmetatable'', d_ret = CInt,
        d_params = [(''L'', lua_State_ptr), (''index'', CInt)]\<rparr>,
      \<lparr>d_export = True, d_name = ''luanet_tonetobject'', d_ret = CInt,
        d_params = [(''L'', lua_State_ptr), (''index'', CInt)]\<rparr>,
      \<lparr>d_export = True, d_name = ''luanet_newudata'', d_ret = CVoid,
        d_params = [(''L'', lua_State_ptr), (''val'', CInt)]\<rparr>,
      \<lparr>d_export = True, d_name = ''luanet_gettag'', d_ret = CPtr CVoid,
        d_params = []\<rparr>,
      \<lparr>d_export = True, d_name = ''luanet_rawnetobj'', d_ret = CInt,
        d_params = [(''L'', lua_State_ptr), (''index'', CInt)]\<rparr>,
      \<lparr>d_export = True, d_name = ''luanet_checkudata'', d_ret = CInt,
        d_params = [(''L'', lua_State_ptr), (''index'', CInt), (''meta'', CPtr (CConst CChar))]\<rparr> ]"

definition find_decl :: "string \<Rightarrow> cdecl option" where
  "find_decl n = find (\<lambda>d. d_name d = n) header_decls"

definition ret_type :: "string \<Rightarrow> ctype option" where
  "ret_type n = map_option d_ret (find_decl n)"

definition param_type :: "string \<Rightarrow> string \<Rightarrow> ctype option" where
  "param_type n p = (case find_decl n of None \<Rightarrow> None | Some d \<Rightarrow> map_of (d_params d) p)"

text \<open>A type is pointer-typed when, under its qualifiers, it is a data or function pointer.\<close>

fun is_pointer :: "ctype \<Rightarrow> bool" where
  "is_pointer (CPtr t) = True"
| "is_pointer (CFunPtr c r ps) = True"
| "is_pointer (CConst t) = is_pointer t"
| "is_pointer CVoid = False"
| "is_pointer CInt = False"
| "is_pointer CChar = False"
| "is_pointer (CNamed n) = False"

text \<open>
  The values that cross the interface: nothing (a \<^verbatim>\<open>void\<close> result), a 32-bit
  \<^verbatim>\<open>int\<close>, a \<^verbatim>\<open>char\<close>, or an address. \<open>has_ctype t v\<close> says that \<open>v\<close> is a value
  of the C type \<open>t\<close>. The opaque \<^verbatim>\<open>lua_State\<close> is never passed by value.
\<close>

datatype cvalue = VVoid | VInt c_int | VChar "8 word" | VPtr addr

fun has_ctype :: "ctype \<Rightarrow> cvalue \<Rightarrow> bool" where
  "has_ctype CVoid v = (case v of VVoid \<Rightarrow> True | _ \<Rightarrow> False)"
| "has_ctype CInt v = (case v of VInt _ \<Rightarrow> True | _ \<Rightarrow> False)"
| "has_ctype CChar v = (case v of VChar _ \<Rightarrow> True | _ \<Rightarrow> False)"
| "has_ctype (CConst t) v = has_ctype t v"
| "has_ctype (CPtr t) v = (case v of VPtr _ \<Rightarrow> True | _ \<Rightarrow> False)"
| "has_ctype (CFunPtr c r ps) v = (case v of VPtr _ \<Rightarrow> True | _ \<Rightarrow> False)"
| "has_ctype (CNamed n) v = False"

section \<open>The guest VM state, wrap and raw unwrap\<close>

text \<open>
  The header declares the bridge's entry points; their bodies, and lua.h which the
  header includes, are not among the sources. What follows models the part of the
  guest VM that wrap and raw unwrap touch, from the spec's data model and operation
  descriptions.
\<close>

text \<open>
  Modelled from the spec: the values a guest stack slot can hold (lua.h's value kinds
  are missing). The spec speaks of "a plain numeric value" and of "user data", a
  "Guest-VM-managed opaque memory block"; a user-data value names its block by
  address. Numbers are kept as integers: nothing below reads a number.
\<close>

datatype lua_value =
    LNil
  | LBoolean bool
  | LNumber int
  | LString string
  | LTable addr
  | LFunction addr
  | LLightUserdata addr
  | LUserdata addr
  | LThread addr

text \<open>
  Modelled from the spec: the user-data block (the body of \<^verbatim>\<open>luanet_newudata\<close> that
  lays it out is missing). "A Guest-VM-managed memory block wrapping an opaque Host
  object reference, carrying the Tag": the identifier is the \<^verbatim>\<open>int\<close> that
  \<^verbatim>\<open>luanet_newudata\<close> receives, the Tag is the pointer \<^verbatim>\<open>luanet_gettag\<close> returns; a
  block of another subsystem carries another tag or none.
\<close>

record udata_block =
  blk_host_id :: c_int
  blk_tag :: "addr option"

text \<open>
  Modelled from the spec: the guest VM behind a \<^verbatim>\<open>lua_State *\<close> (lua.h's
  \<^verbatim>\<open>lua_State\<close> is missing). It owns the evaluation stack (bottom first) and the
  user-data blocks (a block's address is its position); a metatable is "a
  Guest-VM-level record ... attached to a value", and the spec's checked unwrap takes
  a metatable name, so the VM keeps the metatable of each value that has one and the
  metatables known by name.
\<close>

record lua_State =
  stack :: "lua_value list"
  udata :: "udata_block list"
  metatables :: "lua_value \<rightharpoonup> nat"
  registry :: "string \<rightharpoonup> nat"

text \<open>
  Modelled from the spec: "Guest stack index: an integer identifying a position on the
  VM's per-call evaluation stack" (lua.h's addressing is missing). Positive indices
  count from the bottom, starting at 1, negative ones from the top, \<open>-1\<close> being the
  top; any other index identifies no position.
\<close>

definition index2value :: "lua_State \<Rightarrow> c_int \<Rightarrow> lua_value option" where
  "index2value s idx =
     (let i = sint idx; n = int (length (stack s)) in
      if 0 < i \<and> i \<le> n then Some (stack s ! nat (i - 1))
      else if i < 0 \<and> - i \<le> n then Some (stack s ! nat (n + i))
      else None)"

text \<open>
  Modelled from the spec: the body of \<^verbatim>\<open>void luanet_newudata(lua_State *L, int val)\<close>
  is missing. "Wrap host value as user data: input - Guest VM handle, an opaque
  Host-side identifier. Effect - allocates a Guest-VM-owned user-data block tagged with
  this bridge's Tag, pushes it onto the stack." \<open>tg\<close> is the process-wide Tag.
\<close>

definition luanet_newudata :: "addr \<Rightarrow> lua_State \<Rightarrow> c_int \<Rightarrow> lua_State" where
  "luanet_newudata tg s val =
     s\<lparr>stack := stack s @ [LUserdata (length (udata s))],
       udata := udata s @ [\<lparr>blk_host_id = val, blk_tag = Some tg\<rparr>]\<rparr>"

text \<open>
  Modelled from the spec: the body of \<^verbatim>\<open>int luanet_rawnetobj(lua_State *L, int index)\<close>
  is missing. "Raw unwrap (untagged): output - the raw opaque Host identifier stored in
  user data at that index, without verifying the tag." The spec does not say what is
  returned when the index holds no user data: that case is \<open>None\<close>.
\<close>

definition luanet_rawnetobj :: "lua_State \<Rightarrow> c_int \<Rightarrow> c_int option" where
  "luanet_rawnetobj s idx =
     (case index2value s idx of
        Some (LUserdata a) \<Rightarrow>
          if a < length (udata s) then Some (blk_host_id (udata s ! a)) else None
      | _ \<Rightarrow> None)"

text \<open>
  The stack index \<open>idx\<close> of \<open>s\<close> holds the user-data block at address \<open>a\<close>, and that
  block is as \<^verbatim>\<open>luanet_newudata\<close> creates it for the identifier \<open>v\<close> under the Tag
  \<open>tg\<close>.
\<close>

definition wrapped_at :: "lua_State \<Rightarrow> c_int \<Rightarrow> addr \<Rightarrow> c_int \<Rightarrow> addr \<Rightarrow> bool" where
  "wrapped_at s idx a v tg =
     (index2value s idx = Some (LUserdata a)
      \<and> a < length (udata s)
      \<and> udata s ! a = \<lparr>blk_host_id = v, blk_tag = Some tg\<rparr>)"

text \<open>
  A concrete VM for the scenario of the spec: it holds one number on its stack, owns no
  user-data block yet, and knows a metatable under the name \<^verbatim>\<open>HostObject\<close>.
\<close>

definition host_object_vm :: lua_State where
  "host_object_vm =
     \<lparr>stack = [LNumber 5], udata = [], metatables = Map.empty,
      registry = [''HostObject'' \<mapsto> 7]\<rparr>"

section \<open>Results about the declarations\<close>

lemma find_checkudata:
  "find_decl ''luanet_checkudata'' =
     Some \<lparr>d_export = True, d_name = ''luanet_checkudata'', d_ret = CInt,
       d_params = [(''L'', lua_State_ptr), (''index'', CInt), (''meta'', CPtr (CConst CChar))]\<rparr>"
  by (simp add: find_decl_def header_decls_def)

lemma find_tonetobject:
  "find_decl ''luanet_tonetobject'' =
     Some \<lparr>d_export = True, d_name = ''luanet_tonetobject'', d_ret = CInt,
       d_params = [(''L'', lua_State_ptr), (''index'', CInt)]\<rparr>"
  by (simp add: find_decl_def header_decls_def)

lemma find_newudata:
  "find_decl ''luanet_newudata'' =
     Some \<lparr>d_export = True, d_name = ''luanet_newudata'', d_ret = CVoid,
       d_params = [(''L'', lua_State_ptr), (''val'', CInt)]\<rparr>"
  by (simp add: find_decl_def header_decls_def)

lemma find_rawnetobj:
  "find_decl ''luanet_rawnetobj'' =
     Some \<lparr>d_export = True, d_name = ''luanet_rawnetobj'', d_ret = CInt,
       d_params = [(''L'', lua_State_ptr), (''index'', CInt)]\<rparr>"
  by (simp add: find_decl_def header_decls_def)

text \<open>
  C3, as the spec states it: the checked unwrap returns the user-data block pointer, a
  pointer-typed result. The header declares \<^verbatim>\<open>int luanet_checkudata(...)\<close>: its result
  type is not a pointer type.
\<close>

theorem C3_checkudata_pointer_result_counterexample:
  "\<not> (\<exists>t. ret_type ''luanet_checkudata'' = Some t \<and> is_pointer t)"
  by (simp add: ret_type_def find_checkudata)

text \<open>
  C3, amended: the result of the checked unwrap \<^verbatim>\<open>luanet_checkudata\<close> is int-typed and
  not pointer-typed. Whatever it returns on success and on failure is a 32-bit integer:
  every integer is a value of the result type and no address is.
\<close>

theorem C3_checkudata_int_result:
  "ret_type ''luanet_checkudata'' = Some CInt
   \<and> \<not> is_pointer CInt
   \<and> (\<forall>v. has_ctype (the (ret_type ''luanet_checkudata'')) v = (\<exists>n. v = VInt n))
   \<and> (\<forall>p. \<not> has_ctype (the (ret_type ''luanet_checkudata'')) (VPtr p))"
  by (auto simp: ret_type_def find_checkudata split: cvalue.splits)

text \<open>
  C10: the host identifiers at the public interface are plain machine integers, not
  pointers. \<^verbatim>\<open>luanet_newudata\<close> takes the identifier \<^verbatim>\<open>val\<close> as an \<^verbatim>\<open>int\<close>, and
  \<^verbatim>\<open>luanet_tonetobject\<close> and \<^verbatim>\<open>luanet_rawnetobj\<close> both return an \<^verbatim>\<open>int\<close>. So every
  value \<^verbatim>\<open>luanet_tonetobject\<close> can return, its failure indicator included, is a value of
  the very type in which identifiers are handed to \<^verbatim>\<open>luanet_newudata\<close>: the type does not
  tell a failure from an identifier.
\<close>

theorem C10_identifiers_are_ints:
  "param_type ''luanet_newudata'' ''val'' = Some CInt
   \<and> ret_type ''luanet_tonetobject'' = Some CInt
   \<and> ret_type ''luanet_rawnetobj'' = Some CInt
   \<and> \<not> is_pointer CInt
   \<and> (\<forall>f. has_ctype (the (ret_type ''luanet_tonetobject'')) f
          = has_ctype (the (param_type ''luanet_newudata'' ''val'')) f)
   \<and> (\<forall>f. has_ctype (the (ret_type ''luanet_tonetobject'')) f = (\<exists>n. f = VInt n))"
  by (auto simp: ret_type_def param_type_def find_newudata find_tonetobject find_rawnetobj
      split: cvalue.splits)

section \<open>Results about wrap and raw unwrap\<close>

lemma index2value_top:
  "stack s \<noteq> [] \<Longrightarrow> index2value s (- 1) = Some (last (stack s))"
  by (cases "stack s" rule: rev_cases) (simp_all add: index2value_def Let_def)

lemma luanet_newudata_wrapped:
  "wrapped_at (luanet_newudata tg s v) (- 1) (length (udata s)) v tg"
  by (simp add: wrapped_at_def index2value_top luanet_newudata_def nth_append)

lemma index2value_stack_only:
  "stack s' = stack s \<Longrightarrow> index2value s' i = index2value s i"
  by (simp add: index2value_def Let_def)

text \<open>
  C6: for every stack index holding a user-data block created by the wrap operation
  \<^verbatim>\<open>luanet_newudata\<close> with host identifier \<open>v\<close>, the raw unwrap \<^verbatim>\<open>luanet_rawnetobj\<close>
  returns \<open>v\<close>; and it validates neither tag nor metatable: it still returns \<open>v\<close> when
  the block carries any other tag or none, and whatever metatables the VM's values have
  and knows by name.
\<close>

theorem C6_raw_unwrap_of_wrapped:
  assumes "wrapped_at s i a v tg"
  shows "luanet_rawnetobj s i = Some v
         \<and> (\<forall>t M R. luanet_rawnetobj
               (s\<lparr>udata := (udata s)[a := \<lparr>blk_host_id = v, blk_tag = t\<rparr>],
                  metatables := M, registry := R\<rparr>) i = Some v)"
proof -
  from assms have slot: "index2value s i = Some (LUserdata a)"
    and live: "a < length (udata s)"
    and blk: "udata s ! a = \<lparr>blk_host_id = v, blk_tag = Some tg\<rparr>"
    by (simp_all add: wrapped_at_def)
  have plain: "luanet_rawnetobj s i = Some v"
    using slot live blk by (simp add: luanet_rawnetobj_def)
  have changed: "luanet_rawnetobj
      (s\<lparr>udata := (udata s)[a := \<lparr>blk_host_id = v, blk_tag = t\<rparr>],
         metatables := M, registry := R\<rparr>) i = Some v" for t M R
  proof -
    let ?s' = "s\<lparr>udata := (udata s)[a := \<lparr>blk_host_id = v, blk_tag = t\<rparr>],
                 metatables := M, registry := R\<rparr>"
    have "index2value ?s' i = Some (LUserdata a)"
      using slot index2value_stack_only [of ?s' s i] by simp
    then show ?thesis
      using live by (simp add: luanet_rawnetobj_def)
  qed
  from plain changed show ?thesis by blast
qed

text \<open>
  The spec's scenario: wrap the host identifier 7, the block is pushed, and the raw
  unwrap returns 7, with no metatable attached, and also once the block's tag is gone.
\<close>

theorem C6_raw_unwrap_of_wrapped_witness:
  "wrapped_at (luanet_newudata 100 host_object_vm 7) (- 1) 0 7 100
   \<and> luanet_rawnetobj (luanet_newudata 100 host_object_vm 7) (- 1) = Some 7
   \<and> luanet_rawnetobj
        ((luanet_newudata 100 host_object_vm 7)
           \<lparr>udata := (udata (luanet_newudata 100 host_object_vm 7))
                      [0 := \<lparr>blk_host_id = 7, blk_tag = None\<rparr>],
            metatables := Map.empty, registry := Map.empty\<rparr>) (- 1) = Some 7"
proof -
  have w: "wrapped_at (luanet_newudata 100 host_object_vm 7) (- 1) 0 7 100"
    using luanet_newudata_wrapped [of 100 host_object_vm 7]
    by (simp add: host_object_vm_def)
  from C6_raw_unwrap_of_wrapped [OF w] show ?thesis
    using w by blast
qed

end
